theory Spec2Isabelle
  imports Main "HOL-Library.Word"
begin

section \<open>The allocator of malloc\_4.cpp\<close>

text \<open>
  A shallow embedding of \<^verbatim>\<open>src/src/malloc_4.cpp\<close>. Block headers live in a map from
  addresses to header records, the payload bytes in a byte memory, and the three globals
  of the file (\<^verbatim>\<open>metadata_head\<close>, \<^verbatim>\<open>mmap_metadata_head\<close>, \<^verbatim>\<open>free_block_bin\<close>) are fields of
  the state. A null pointer is \<open>None\<close>. The target is LP64: a pointer and a
  \<^verbatim>\<open>size_t\<close> have 8 bytes, an \<^verbatim>\<open>int\<close> has 4, and the header struct has 48.
  Sizes and addresses are natural numbers; the conversions of the source that can wrap
  (\<^verbatim>\<open>size_t\<close> subtraction, the \<^verbatim>\<open>int\<close> of \<^verbatim>\<open>cut_block\<close>, the product of \<^verbatim>\<open>scalloc\<close>, the
  counters) are written out.
\<close>

subsection \<open>Constants and macros\<close>

definition ADDRESS_SIZE :: nat where
  "ADDRESS_SIZE = 8"

definition sizeof_malloc_metadata_t :: nat where
  "sizeof_malloc_metadata_t = 48"

definition GET_SIZE_WITH_ALIGNMENT :: "nat \<Rightarrow> nat" where
  "GET_SIZE_WITH_ALIGNMENT address =
     address + ((ADDRESS_SIZE - (address mod ADDRESS_SIZE)) mod ADDRESS_SIZE)"

definition MAX_MALLOC_4_SIZE :: nat where
  "MAX_MALLOC_4_SIZE = 100000000"

definition BIN_SIZE :: nat where
  "BIN_SIZE = 128"

definition KB :: nat where
  "KB = 1024"

definition MIN_KB_BLOCK :: nat where
  "MIN_KB_BLOCK = 128 * KB"

definition MMIN :: "nat \<Rightarrow> nat \<Rightarrow> nat" where
  "MMIN A B = (if A < B then A else B)"

definition GET_BIN_ENTRY :: "nat \<Rightarrow> nat" where
  "GET_BIN_ENTRY sz = sz div KB"

definition IS_LARGE_ENOUGH :: "nat \<Rightarrow> nat \<Rightarrow> bool" where
  "IS_LARGE_ENOUGH entire_block_size needed_size \<longleftrightarrow>
     entire_block_size \<ge> needed_size + sizeof_malloc_metadata_t + 128"

definition GET_PTR_FROM_METADATA :: "nat \<Rightarrow> nat" where
  "GET_PTR_FROM_METADATA metadata = metadata + sizeof_malloc_metadata_t"

definition GET_METADATA_FROM_PTR :: "nat \<Rightarrow> nat" where
  "GET_METADATA_FROM_PTR alloc_ptr = alloc_ptr - sizeof_malloc_metadata_t"

text \<open>\<^verbatim>\<open>size_t\<close> subtraction, and the conversions to \<^verbatim>\<open>intptr_t\<close> and to \<^verbatim>\<open>int\<close>.\<close>

definition size_t_sub :: "nat \<Rightarrow> nat \<Rightarrow> nat" where
  "size_t_sub a b = nat ((int a - int b) mod 2 ^ 64)"

definition to_intptr :: "nat \<Rightarrow> int" where
  "to_intptr n = (if n mod 2 ^ 64 < 2 ^ 63 then int (n mod 2 ^ 64) else int (n mod 2 ^ 64) - 2 ^ 64)"

definition to_int :: "nat \<Rightarrow> int" where
  "to_int n = (if n mod 2 ^ 32 < 2 ^ 31 then int (n mod 2 ^ 32) else int (n mod 2 ^ 32) - 2 ^ 32)"

definition int_to_size_t :: "int \<Rightarrow> nat" where
  "int_to_size_t i = nat (i mod 2 ^ 64)"

subsection \<open>Headers, state, outcomes\<close>

record malloc_metadata_t =
  size_md :: nat
  is_free :: bool
  next_md :: "nat option"
  prev :: "nat option"
  bin_next :: "nat option"
  bin_prev :: "nat option"

datatype list_ref = Metadata_head | Mmap_metadata_head

text \<open>
  The operating system is part of the state: the program break with the limit beyond
  which \<^verbatim>\<open>sbrk\<close> fails, and the next address and the bytes left for \<^verbatim>\<open>mmap\<close>. Where a
  mapping is placed is the system's choice: here \<^verbatim>\<open>mmap\<close> places it at \<open>mmap_next\<close>, and
  \<^verbatim>\<open>munmap\<close> of the most recent mapping gives its address back, so that the next \<^verbatim>\<open>mmap\<close>
  returns the address just released.
\<close>

record alloc_state =
  heap :: "nat \<Rightarrow> malloc_metadata_t option"
  mem :: "nat \<Rightarrow> 8 word"
  metadata_head :: "nat option"
  mmap_metadata_head :: "nat option"
  free_block_bin :: "nat \<Rightarrow> nat option"
  brk :: nat
  brk_limit :: nat
  mmap_next :: nat
  mmap_left :: nat

text \<open>
  An execution either does not return (\<open>None\<close>), stops in undefined behaviour (a fault),
  or returns a value.
\<close>

datatype fault = OutOfBounds | InvalidPointer

type_synonym 'a exec = "(fault + 'a) option"

abbreviation ok :: "'a \<Rightarrow> 'a exec" where
  "ok x \<equiv> Some (Inr x)"

abbreviation crash :: "fault \<Rightarrow> 'a exec" where
  "crash e \<equiv> Some (Inl e)"

definition bind_exec :: "'a exec \<Rightarrow> ('a \<Rightarrow> 'b exec) \<Rightarrow> 'b exec" where
  "bind_exec x f = (case x of None \<Rightarrow> None | Some (Inl e) \<Rightarrow> crash e | Some (Inr v) \<Rightarrow> f v)"

text \<open>Reading a header through a pointer, and assigning to a field of it.\<close>

definition load :: "alloc_state \<Rightarrow> nat option \<Rightarrow> malloc_metadata_t exec" where
  "load s p = (case p of None \<Rightarrow> crash InvalidPointer
     | Some a \<Rightarrow> (case heap s a of None \<Rightarrow> crash InvalidPointer | Some m \<Rightarrow> ok m))"

definition store :: "alloc_state \<Rightarrow> nat option \<Rightarrow> (malloc_metadata_t \<Rightarrow> malloc_metadata_t) \<Rightarrow> alloc_state exec" where
  "store s p f = (case p of None \<Rightarrow> crash InvalidPointer
     | Some a \<Rightarrow> (case heap s a of None \<Rightarrow> crash InvalidPointer
         | Some m \<Rightarrow> ok (s\<lparr>heap := (heap s)(a \<mapsto> f m)\<rparr>)))"

text \<open>The array \<^verbatim>\<open>free_block_bin[BIN_SIZE]\<close>: an index from \<open>BIN_SIZE\<close> on is out of bounds.\<close>

definition get_bin :: "alloc_state \<Rightarrow> nat \<Rightarrow> nat option exec" where
  "get_bin s i = (if i < BIN_SIZE then ok (free_block_bin s i) else crash OutOfBounds)"

definition set_bin :: "alloc_state \<Rightarrow> nat \<Rightarrow> nat option \<Rightarrow> alloc_state exec" where
  "set_bin s i v = (if i < BIN_SIZE then ok (s\<lparr>free_block_bin := (free_block_bin s)(i := v)\<rparr>)
     else crash OutOfBounds)"

definition get_head :: "alloc_state \<Rightarrow> list_ref \<Rightarrow> nat option" where
  "get_head s l = (case l of Metadata_head \<Rightarrow> metadata_head s | Mmap_metadata_head \<Rightarrow> mmap_metadata_head s)"

definition set_head :: "alloc_state \<Rightarrow> list_ref \<Rightarrow> nat option \<Rightarrow> alloc_state" where
  "set_head s l v = (case l of Metadata_head \<Rightarrow> s\<lparr>metadata_head := v\<rparr>
     | Mmap_metadata_head \<Rightarrow> s\<lparr>mmap_metadata_head := v\<rparr>)"

subsection \<open>The operating system\<close>

definition PAGE_SIZE :: nat where
  "PAGE_SIZE = 4096"

definition sbrk :: "alloc_state \<Rightarrow> int \<Rightarrow> nat option \<times> alloc_state" where
  "sbrk s incr =
     (if int (brk s) + incr < 0 \<or> int (brk s) + incr > int (brk_limit s) then (None, s)
      else (Some (brk s), s\<lparr>brk := nat (int (brk s) + incr)\<rparr>))"

definition mmap :: "alloc_state \<Rightarrow> nat \<Rightarrow> nat option \<times> alloc_state" where
  "mmap s len =
     (if len > mmap_left s then (None, s)
      else (Some (mmap_next s),
            s\<lparr>mmap_next := mmap_next s + ((len + PAGE_SIZE - 1) div PAGE_SIZE) * PAGE_SIZE,
              mmap_left := mmap_left s - len\<rparr>))"

definition munmap :: "alloc_state \<Rightarrow> nat \<Rightarrow> nat \<Rightarrow> alloc_state" where
  "munmap s addr len =
     (if addr mod PAGE_SIZE = 0 then
        (if addr + ((len + PAGE_SIZE - 1) div PAGE_SIZE) * PAGE_SIZE = mmap_next s
         then s\<lparr>heap := (heap s)(addr := None), mmap_next := addr, mmap_left := mmap_left s + len\<rparr>
         else s\<lparr>heap := (heap s)(addr := None)\<rparr>)
      else s)"

definition memset :: "alloc_state \<Rightarrow> nat \<Rightarrow> 8 word \<Rightarrow> nat \<Rightarrow> alloc_state" where
  "memset s dst c n = s\<lparr>mem := (\<lambda>a. if dst \<le> a \<and> a < dst + n then c else mem s a)\<rparr>"

definition memmove :: "alloc_state \<Rightarrow> nat option \<Rightarrow> nat \<Rightarrow> nat \<Rightarrow> alloc_state exec" where
  "memmove s dst src n = (case dst of
       None \<Rightarrow> (if n = 0 then ok s else crash InvalidPointer)
     | Some d \<Rightarrow> ok (s\<lparr>mem := (\<lambda>a. if d \<le> a \<and> a < d + n then mem s (src + (a - d)) else mem s a)\<rparr>))"

definition INIT_METADATA ::
  "alloc_state \<Rightarrow> nat \<Rightarrow> nat \<Rightarrow> bool \<Rightarrow> nat option \<Rightarrow> nat option \<Rightarrow> nat option \<Rightarrow> nat option \<Rightarrow> alloc_state" where
  "INIT_METADATA s metadata sz fr nx pv bnx bpv =
     s\<lparr>heap := (heap s)(metadata \<mapsto>
        \<lparr>size_md = sz, is_free = fr, next_md = nx, prev = pv, bin_next = bnx, bin_prev = bpv\<rparr>)\<rparr>"

subsection \<open>The two chains\<close>

partial_function (option) get_last_loop :: "alloc_state \<Rightarrow> nat option \<Rightarrow> nat option \<Rightarrow> nat option exec" where
  "get_last_loop s list block = (case block of
       None \<Rightarrow> ok list
     | Some b \<Rightarrow> (case heap s b of
           None \<Rightarrow> crash InvalidPointer
         | Some m \<Rightarrow> if next_md m = None then ok (Some b) else get_last_loop s list (next_md m)))"

definition get_last_metadata_block :: "alloc_state \<Rightarrow> nat option \<Rightarrow> nat option exec" where
  "get_last_metadata_block s list = (if list = None then ok None else get_last_loop s list list)"

definition remove_from_list :: "alloc_state \<Rightarrow> nat option \<Rightarrow> list_ref \<Rightarrow> alloc_state exec" where
  "remove_from_list s to_del list =
     bind_exec (load s to_del) (\<lambda>m.
     bind_exec
       (if next_md m = None \<and> prev m = None then ok (set_head s list None)
        else if prev m = None then
          store (set_head s list (next_md m)) (next_md m) (\<lambda>x. x\<lparr>prev := None\<rparr>)
        else if next_md m = None then
          store s (prev m) (\<lambda>x. x\<lparr>next_md := None\<rparr>)
        else
          bind_exec (store s (next_md m) (\<lambda>x. x\<lparr>prev := prev m\<rparr>)) (\<lambda>s1.
          bind_exec (load s1 to_del) (\<lambda>m1.
          store s1 (prev m1) (\<lambda>x. x\<lparr>next_md := next_md m1\<rparr>))))
       (\<lambda>s2. store s2 to_del (\<lambda>x. x\<lparr>next_md := None, prev := None\<rparr>)))"

definition insert_to_metadata_list :: "alloc_state \<Rightarrow> nat \<Rightarrow> list_ref \<Rightarrow> alloc_state exec" where
  "insert_to_metadata_list s new_block list =
     (if get_head s list = None then
        bind_exec (store s (Some new_block) (\<lambda>x. x\<lparr>prev := None, next_md := None\<rparr>)) (\<lambda>s1.
        ok (set_head s1 list (Some new_block)))
      else
        bind_exec (get_last_metadata_block s (get_head s list)) (\<lambda>after.
        bind_exec (store s after (\<lambda>x. x\<lparr>next_md := Some new_block\<rparr>)) (\<lambda>s1.
        store s1 (Some new_block) (\<lambda>x. x\<lparr>prev := after, next_md := None\<rparr>))))"

subsection \<open>The bins\<close>

definition remove_from_bin :: "alloc_state \<Rightarrow> nat \<Rightarrow> alloc_state exec" where
  "remove_from_bin s to_del =
     bind_exec (load s (Some to_del)) (\<lambda>m.
     bind_exec
       (if bin_next m = None \<and> bin_prev m = None then
          set_bin s (GET_BIN_ENTRY (size_md m)) None
        else if bin_prev m = None then
          bind_exec (set_bin s (GET_BIN_ENTRY (size_md m)) (bin_next m)) (\<lambda>s1.
          store s1 (bin_next m) (\<lambda>x. x\<lparr>bin_prev := None\<rparr>))
        else
          store s (bin_prev m) (\<lambda>x. x\<lparr>bin_next := None\<rparr>))
       (\<lambda>s2. store s2 (Some to_del) (\<lambda>x. x\<lparr>bin_next := None, bin_prev := None\<rparr>)))"

text \<open>
  The loop of \<^verbatim>\<open>insert_block_to_bin\<close> walks the bucket along \<^verbatim>\<open>bin_next\<close>; \<open>last_b\<close> is the
  variable \<^verbatim>\<open>last\<close>, the block of the previous iteration.
\<close>

definition insert_before :: "alloc_state \<Rightarrow> nat \<Rightarrow> nat \<Rightarrow> alloc_state exec" where
  "insert_before s new_block block =
     bind_exec (load s (Some block)) (\<lambda>mb.
       if bin_prev mb = None then
         bind_exec (store s (Some block) (\<lambda>x. x\<lparr>bin_prev := Some new_block\<rparr>)) (\<lambda>s1.
         bind_exec (store s1 (Some new_block) (\<lambda>x. x\<lparr>bin_next := Some block, bin_prev := None\<rparr>)) (\<lambda>s2.
         bind_exec (load s2 (Some new_block)) (\<lambda>mn.
         set_bin s2 (GET_BIN_ENTRY (size_md mn)) (Some new_block))))
       else
         bind_exec (store s (bin_prev mb) (\<lambda>x. x\<lparr>bin_next := Some new_block\<rparr>)) (\<lambda>s1.
         bind_exec (store s1 (Some new_block) (\<lambda>x. x\<lparr>bin_prev := bin_prev mb, bin_next := Some block\<rparr>)) (\<lambda>s2.
         store s2 (Some block) (\<lambda>x. x\<lparr>bin_prev := Some new_block\<rparr>))))"

definition insert_last :: "alloc_state \<Rightarrow> nat \<Rightarrow> nat option \<Rightarrow> alloc_state exec" where
  "insert_last s new_block last_b =
     bind_exec (store s (Some new_block) (\<lambda>x. x\<lparr>bin_next := None, bin_prev := last_b\<rparr>)) (\<lambda>s1.
     bind_exec (store s1 last_b (\<lambda>x. x\<lparr>bin_next := Some new_block\<rparr>)) (\<lambda>s2.
     store s2 (Some new_block) (\<lambda>x. x\<lparr>is_free := True\<rparr>)))"

partial_function (option) insert_loop :: "alloc_state \<Rightarrow> nat \<Rightarrow> nat option \<Rightarrow> nat option \<Rightarrow> alloc_state exec" where
  "insert_loop s new_block block last_b = (case block of
       None \<Rightarrow> insert_last s new_block last_b
     | Some b \<Rightarrow> (case heap s b of
           None \<Rightarrow> crash InvalidPointer
         | Some mb \<Rightarrow> (case heap s new_block of
               None \<Rightarrow> crash InvalidPointer
             | Some mn \<Rightarrow>
                 if size_md mb \<ge> size_md mn then insert_before s new_block b
                 else insert_loop s new_block (bin_next mb) (Some b))))"

definition insert_block_to_bin :: "alloc_state \<Rightarrow> nat \<Rightarrow> alloc_state exec" where
  "insert_block_to_bin s new_block =
     bind_exec (load s (Some new_block)) (\<lambda>m.
     bind_exec (get_bin s (GET_BIN_ENTRY (size_md m))) (\<lambda>first.
       if first = None then
         bind_exec (store s (Some new_block) (\<lambda>x. x\<lparr>bin_prev := None, bin_next := None\<rparr>)) (\<lambda>s1.
         set_bin s1 (GET_BIN_ENTRY (size_md m)) (Some new_block))
       else insert_loop s new_block first None))"

definition cut_block :: "alloc_state \<Rightarrow> nat \<Rightarrow> nat \<Rightarrow> bool \<Rightarrow> alloc_state exec" where
  "cut_block s block sz remove_bin =
     bind_exec (if remove_bin then remove_from_bin s block else ok s) (\<lambda>s1.
     bind_exec (load s1 (Some block)) (\<lambda>m.
       let new_block_size = to_int (size_t_sub (size_md m) sz);
           new_block = block + sz + sizeof_malloc_metadata_t;
           s2 = INIT_METADATA s1 new_block
                  (int_to_size_t (new_block_size - int sizeof_malloc_metadata_t))
                  True (next_md m) (Some block) None None
       in
       bind_exec (insert_block_to_bin s2 new_block) (\<lambda>s3.
       bind_exec (load s3 (Some block)) (\<lambda>m3.
       bind_exec (if next_md m3 \<noteq> None
                  then store s3 (next_md m3) (\<lambda>x. x\<lparr>prev := Some new_block\<rparr>) else ok s3) (\<lambda>s4.
       store s4 (Some block)
         (\<lambda>x. x\<lparr>next_md := Some new_block, is_free := False, size_md := sz,
                 bin_next := None, bin_prev := None\<rparr>))))))"

text \<open>
  \<^verbatim>\<open>get_free_metadata_block\<close>: the statements run on the block that satisfies the request,
  the inner loop (\<^verbatim>\<open>METADATA_FOR_EACH\<close>, which steps along \<^verbatim>\<open>next\<close>), and the loop over the
  buckets.
\<close>

definition take_block :: "alloc_state \<Rightarrow> nat \<Rightarrow> nat \<Rightarrow> (nat option \<times> alloc_state) exec" where
  "take_block s block sz =
     bind_exec (load s (Some block)) (\<lambda>m.
       if IS_LARGE_ENOUGH (size_md m) sz then
         bind_exec (cut_block s block sz True) (\<lambda>s1.
         bind_exec (store s1 (Some block) (\<lambda>x. x\<lparr>is_free := False\<rparr>)) (\<lambda>s2.
         ok (Some block, s2)))
       else
         bind_exec (remove_from_bin s block) (\<lambda>s1.
         bind_exec (store s1 (Some block) (\<lambda>x. x\<lparr>is_free := False\<rparr>)) (\<lambda>s2.
         ok (Some block, s2))))"

partial_function (option) bucket_loop :: "alloc_state \<Rightarrow> nat \<Rightarrow> nat option \<Rightarrow> (nat option \<times> alloc_state) exec" where
  "bucket_loop s sz block = (case block of
       None \<Rightarrow> ok (None, s)
     | Some b \<Rightarrow> (case heap s b of
           None \<Rightarrow> crash InvalidPointer
         | Some m \<Rightarrow> if size_md m \<ge> sz then take_block s b sz
                     else bucket_loop s sz (next_md m)))"

function bins_loop :: "alloc_state \<Rightarrow> nat \<Rightarrow> nat \<Rightarrow> (nat option \<times> alloc_state) exec" where
  "bins_loop s sz i =
     (if i < BIN_SIZE then
        (if free_block_bin s i = None then bins_loop s sz (i + 1)
         else (case bucket_loop s sz (free_block_bin s i) of
                 Some (Inr (None, s1)) \<Rightarrow> bins_loop s1 sz (i + 1)
               | r \<Rightarrow> r))
      else ok (None, s))"
  by pat_completeness auto
termination
  by (relation "measure (\<lambda>(s, sz, i). BIN_SIZE - i)") auto

declare bins_loop.simps [simp del]

definition get_free_metadata_block :: "alloc_state \<Rightarrow> nat \<Rightarrow> (nat option \<times> alloc_state) exec" where
  "get_free_metadata_block s sz = bins_loop s sz (GET_BIN_ENTRY sz)"

subsection \<open>smalloc, scalloc, sfree\<close>

definition is_free_at :: "alloc_state \<Rightarrow> nat option \<Rightarrow> bool exec" where
  "is_free_at s p = bind_exec (load s p) (\<lambda>m. ok (is_free m))"

text \<open>The tail of \<^verbatim>\<open>smalloc\<close> that extends the last block of the chain when it is free.\<close>

definition expand_last :: "alloc_state \<Rightarrow> nat option \<Rightarrow> nat \<Rightarrow> (nat option \<times> alloc_state) exec" where
  "expand_last s last_b sz =
     bind_exec (load s last_b) (\<lambda>m.
       case sbrk s (to_intptr (size_t_sub (GET_SIZE_WITH_ALIGNMENT sz) (size_md m))) of
         (None, s1) \<Rightarrow> ok (None, s1)
       | (Some ret, s1) \<Rightarrow>
           bind_exec
             (if bin_prev m = None then set_bin s1 (GET_BIN_ENTRY (size_md m)) (bin_next m)
              else
                bind_exec (store s1 (bin_prev m) (\<lambda>x. x\<lparr>bin_next := bin_next m\<rparr>)) (\<lambda>s2.
                bind_exec (load s2 last_b) (\<lambda>m2.
                  if bin_next m2 \<noteq> None
                  then store s2 (bin_next m2) (\<lambda>x. x\<lparr>bin_prev := bin_prev m2\<rparr>) else ok s2)))
             (\<lambda>s3.
           bind_exec (store s3 last_b (\<lambda>x. x\<lparr>is_free := False, size_md := sz\<rparr>)) (\<lambda>s4.
           ok (map_option GET_PTR_FROM_METADATA last_b, s4))))"

definition smalloc :: "alloc_state \<Rightarrow> nat \<Rightarrow> (nat option \<times> alloc_state) exec" where
  "smalloc s size0 =
     (if size0 > MAX_MALLOC_4_SIZE \<or> size0 = 0 then ok (None, s)
      else
        let sz = GET_SIZE_WITH_ALIGNMENT size0 in
        if sz \<ge> MIN_KB_BLOCK then
          (case mmap s (sz + sizeof_malloc_metadata_t) of
             (None, s1) \<Rightarrow> ok (None, s1)
           | (Some ret, s1) \<Rightarrow>
               bind_exec (insert_to_metadata_list
                            (INIT_METADATA s1 ret sz False None None None None)
                            ret Mmap_metadata_head) (\<lambda>s2.
               ok (Some (GET_PTR_FROM_METADATA ret), s2)))
        else
          bind_exec (get_free_metadata_block s sz) (\<lambda>(freed, s1).
            case freed of
              Some f \<Rightarrow> ok (Some (GET_PTR_FROM_METADATA f), s1)
            | None \<Rightarrow>
                bind_exec (get_last_metadata_block s1 (metadata_head s1)) (\<lambda>last_b.
                bind_exec (if last_b = None then ok False else is_free_at s1 last_b) (\<lambda>c.
                  if c then expand_last s1 last_b sz
                  else
                    (case sbrk s1 (to_intptr (sz + sizeof_malloc_metadata_t)) of
                       (None, s2) \<Rightarrow> ok (None, s2)
                     | (Some ret, s2) \<Rightarrow>
                         bind_exec (insert_to_metadata_list
                                      (INIT_METADATA s2 ret sz False None None None None)
                                      ret Metadata_head) (\<lambda>s3.
                         ok (Some (GET_PTR_FROM_METADATA ret), s3)))))))"

text \<open>\<^verbatim>\<open>num * size\<close> is a product of two \<^verbatim>\<open>size_t\<close>.\<close>

definition scalloc :: "alloc_state \<Rightarrow> nat \<Rightarrow> nat \<Rightarrow> (nat option \<times> alloc_state) exec" where
  "scalloc s num sz =
     bind_exec (smalloc s ((num * sz) mod 2 ^ 64)) (\<lambda>(res, s1).
       case res of
         Some r \<Rightarrow> ok (Some r, memset s1 r 0 ((num * sz) mod 2 ^ 64))
       | None \<Rightarrow> ok (None, s1))"

definition merge_with_next :: "alloc_state \<Rightarrow> nat \<Rightarrow> alloc_state exec" where
  "merge_with_next s to_free =
     bind_exec (load s (Some to_free)) (\<lambda>m.
     bind_exec (if next_md m = None then ok False else is_free_at s (next_md m)) (\<lambda>c.
       if c then
         bind_exec (load s (next_md m)) (\<lambda>mt.
         bind_exec (store s (Some to_free) (\<lambda>x. x\<lparr>next_md := next_md mt\<rparr>)) (\<lambda>s1.
         bind_exec (load s1 (next_md m)) (\<lambda>mt1.
         bind_exec (if next_md mt1 \<noteq> None
                    then store s1 (next_md mt1) (\<lambda>x. x\<lparr>prev := Some to_free\<rparr>) else ok s1) (\<lambda>s2.
         bind_exec (remove_from_bin s2 (the (next_md m))) (\<lambda>s3.
         bind_exec (remove_from_bin s3 to_free) (\<lambda>s4.
         bind_exec (load s4 (next_md m)) (\<lambda>mt4.
         bind_exec (store s4 (Some to_free)
                      (\<lambda>x. x\<lparr>size_md := size_md x + (size_md mt4 + sizeof_malloc_metadata_t)\<rparr>)) (\<lambda>s5.
         insert_block_to_bin s5 to_free))))))))
       else ok s))"

definition merge_with_prev :: "alloc_state \<Rightarrow> nat \<Rightarrow> alloc_state exec" where
  "merge_with_prev s to_free =
     bind_exec (load s (Some to_free)) (\<lambda>m.
     bind_exec (if prev m = None then ok False else is_free_at s (prev m)) (\<lambda>c.
       if c then
         bind_exec (store s (prev m) (\<lambda>x. x\<lparr>next_md := next_md m\<rparr>)) (\<lambda>s1.
         bind_exec (load s1 (Some to_free)) (\<lambda>m1.
         bind_exec (if next_md m1 \<noteq> None
                    then store s1 (next_md m1) (\<lambda>x. x\<lparr>prev := prev m\<rparr>) else ok s1) (\<lambda>s2.
         bind_exec (remove_from_bin s2 (the (prev m))) (\<lambda>s3.
         bind_exec (remove_from_bin s3 to_free) (\<lambda>s4.
         bind_exec (load s4 (Some to_free)) (\<lambda>m4.
         bind_exec (store s4 (prev m)
                      (\<lambda>x. x\<lparr>size_md := size_md x + (size_md m4 + sizeof_malloc_metadata_t)\<rparr>)) (\<lambda>s5.
         insert_block_to_bin s5 (the (prev m)))))))))
       else ok s))"

definition sfree :: "alloc_state \<Rightarrow> nat option \<Rightarrow> alloc_state exec" where
  "sfree s p = (case p of
       None \<Rightarrow> ok s
     | Some ptr \<Rightarrow>
         let to_free = GET_METADATA_FROM_PTR ptr in
         bind_exec (load s (Some to_free)) (\<lambda>m.
           if size_md m \<ge> MIN_KB_BLOCK then
             bind_exec (remove_from_list s (Some to_free) Mmap_metadata_head) (\<lambda>s1.
             bind_exec (load s1 (Some to_free)) (\<lambda>m1.
             ok (munmap s1 to_free (size_md m1 + sizeof_malloc_metadata_t))))
           else
             bind_exec (insert_block_to_bin s to_free) (\<lambda>s1.
             bind_exec (merge_with_next s1 to_free) (\<lambda>s2.
             bind_exec (merge_with_prev s2 to_free) (\<lambda>s3.
             store s3 (Some to_free) (\<lambda>x. x\<lparr>is_free := True\<rparr>))))))"

subsection \<open>srealloc\<close>

text \<open>
  The statements that follow every \<^verbatim>\<open>cut_block\<close> of \<^verbatim>\<open>srealloc\<close>: when the block after
  \<open>blk\<close> and the one after that are both free, they are merged.
\<close>

definition merge_after_cut :: "alloc_state \<Rightarrow> nat \<Rightarrow> alloc_state exec" where
  "merge_after_cut s blk =
     bind_exec (load s (Some blk)) (\<lambda>m.
     bind_exec
       (if next_md m = None then ok False
        else bind_exec (load s (next_md m)) (\<lambda>mb.
          if \<not> is_free mb \<or> next_md mb = None then ok False
          else is_free_at s (next_md mb))) (\<lambda>c.
       if c then
         bind_exec (load s (next_md m)) (\<lambda>mb.
         let base = the (next_md m); base_next = the (next_md mb) in
         bind_exec (remove_from_bin s base) (\<lambda>s1.
         bind_exec (remove_from_bin s1 base_next) (\<lambda>s2.
         bind_exec (load s2 (Some base_next)) (\<lambda>mn.
         bind_exec (store s2 (Some base) (\<lambda>x. x\<lparr>next_md := next_md mn\<rparr>)) (\<lambda>s3.
         bind_exec (load s3 (Some base_next)) (\<lambda>mn3.
         bind_exec (if next_md mn3 \<noteq> None
                    then store s3 (next_md mn3) (\<lambda>x. x\<lparr>prev := Some base\<rparr>) else ok s3) (\<lambda>s4.
         bind_exec (load s4 (Some base_next)) (\<lambda>mn4.
         bind_exec (store s4 (Some base)
                      (\<lambda>x. x\<lparr>size_md := size_md x + (sizeof_malloc_metadata_t + size_md mn4)\<rparr>)) (\<lambda>s5.
         insert_block_to_bin s5 base)))))))))
       else ok s))"

definition cut_and_merge :: "alloc_state \<Rightarrow> nat \<Rightarrow> nat \<Rightarrow> bool \<Rightarrow> alloc_state exec" where
  "cut_and_merge s blk sz remove_bin =
     bind_exec (load s (Some blk)) (\<lambda>m.
       if IS_LARGE_ENOUGH (size_md m) sz then
         bind_exec (cut_block s blk sz remove_bin) (\<lambda>s1. merge_after_cut s1 blk)
       else ok s)"

text \<open>Absorbing \<open>old_ptr\<close> into the block before it, as two branches of \<^verbatim>\<open>srealloc\<close> do.\<close>

definition absorb_into_prev :: "alloc_state \<Rightarrow> nat \<Rightarrow> alloc_state exec" where
  "absorb_into_prev s old_ptr =
     bind_exec (load s (Some old_ptr)) (\<lambda>mo.
     let ret = the (prev mo) in
     bind_exec (remove_from_bin s ret) (\<lambda>s1.
     bind_exec (store s1 (Some ret) (\<lambda>x. x\<lparr>is_free := False\<rparr>)) (\<lambda>s2.
     bind_exec (load s2 (Some old_ptr)) (\<lambda>mo2.
     bind_exec (store s2 (Some ret) (\<lambda>x. x\<lparr>next_md := next_md mo2\<rparr>)) (\<lambda>s3.
     bind_exec (load s3 (Some old_ptr)) (\<lambda>mo3.
     bind_exec (if next_md mo3 \<noteq> None
                then store s3 (next_md mo3) (\<lambda>x. x\<lparr>prev := Some ret\<rparr>) else ok s3) (\<lambda>s4.
     bind_exec (load s4 (Some old_ptr)) (\<lambda>mo4.
     store s4 (Some ret)
       (\<lambda>x. x\<lparr>size_md := size_md x + (size_md mo4 + sizeof_malloc_metadata_t)\<rparr>)))))))))"

definition realloc_merge_prev :: "alloc_state \<Rightarrow> nat \<Rightarrow> nat \<Rightarrow> nat \<Rightarrow> (nat option \<times> alloc_state) exec" where
  "realloc_merge_prev s oldp old_ptr sz =
     bind_exec (load s (Some old_ptr)) (\<lambda>mo.
     let ret = the (prev mo) in
     bind_exec (absorb_into_prev s old_ptr) (\<lambda>s1.
     bind_exec (load s1 (Some old_ptr)) (\<lambda>mo1.
     bind_exec (memmove s1 (Some (GET_PTR_FROM_METADATA ret)) oldp (MMIN sz (size_md mo1))) (\<lambda>s2.
     bind_exec (cut_and_merge s2 ret sz False) (\<lambda>s3.
     ok (Some (GET_PTR_FROM_METADATA ret), s3))))))"

definition realloc_merge_next :: "alloc_state \<Rightarrow> nat \<Rightarrow> nat \<Rightarrow> nat \<Rightarrow> (nat option \<times> alloc_state) exec" where
  "realloc_merge_next s oldp old_ptr sz =
     bind_exec (load s (Some old_ptr)) (\<lambda>mo.
     let to_merge = the (next_md mo) in
     bind_exec (remove_from_bin s to_merge) (\<lambda>s1.
     bind_exec (store s1 (Some old_ptr) (\<lambda>x. x\<lparr>is_free := False\<rparr>)) (\<lambda>s2.
     bind_exec (load s2 (Some to_merge)) (\<lambda>mt.
     bind_exec (store s2 (Some old_ptr) (\<lambda>x. x\<lparr>next_md := next_md mt\<rparr>)) (\<lambda>s3.
     bind_exec (load s3 (Some to_merge)) (\<lambda>mt3.
     bind_exec (if next_md mt3 \<noteq> None
                then store s3 (next_md mt3) (\<lambda>x. x\<lparr>prev := Some old_ptr\<rparr>) else ok s3) (\<lambda>s4.
     bind_exec (load s4 (Some to_merge)) (\<lambda>mt4.
     bind_exec (store s4 (Some old_ptr)
                  (\<lambda>x. x\<lparr>size_md := size_md x + (size_md mt4 + sizeof_malloc_metadata_t)\<rparr>)) (\<lambda>s5.
     bind_exec (cut_and_merge s5 old_ptr sz False) (\<lambda>s6.
     ok (Some (GET_PTR_FROM_METADATA old_ptr), s6)))))))))))"

definition realloc_merge_both :: "alloc_state \<Rightarrow> nat \<Rightarrow> nat \<Rightarrow> nat \<Rightarrow> (nat option \<times> alloc_state) exec" where
  "realloc_merge_both s oldp old_ptr sz =
     bind_exec (load s (Some old_ptr)) (\<lambda>mo.
     let prev_b = the (prev mo); next_b = the (next_md mo) in
     bind_exec (remove_from_bin s prev_b) (\<lambda>s1.
     bind_exec (remove_from_bin s1 next_b) (\<lambda>s2.
     bind_exec (store s2 (Some prev_b) (\<lambda>x. x\<lparr>is_free := False\<rparr>)) (\<lambda>s3.
     bind_exec (load s3 (Some next_b)) (\<lambda>mn.
     bind_exec (store s3 (Some prev_b) (\<lambda>x. x\<lparr>next_md := next_md mn\<rparr>)) (\<lambda>s4.
     bind_exec (load s4 (Some next_b)) (\<lambda>mn4.
     bind_exec (if next_md mn4 \<noteq> None
                then store s4 (next_md mn4) (\<lambda>x. x\<lparr>prev := Some prev_b\<rparr>) else ok s4) (\<lambda>s5.
     bind_exec (load s5 (Some old_ptr)) (\<lambda>mo5.
     bind_exec (load s5 (Some next_b)) (\<lambda>mn5.
     bind_exec (store s5 (Some prev_b)
                  (\<lambda>x. x\<lparr>size_md := size_md x
                     + (size_md mo5 + size_md mn5 + 2 * sizeof_malloc_metadata_t)\<rparr>)) (\<lambda>s6.
     bind_exec (load s6 (Some old_ptr)) (\<lambda>mo6.
     bind_exec (memmove s6 (Some (GET_PTR_FROM_METADATA prev_b)) oldp (MMIN sz (size_md mo6))) (\<lambda>s7.
     bind_exec (cut_and_merge s7 prev_b sz False) (\<lambda>s8.
     ok (Some (GET_PTR_FROM_METADATA prev_b), s8)))))))))))))))"

definition realloc_expand_last :: "alloc_state \<Rightarrow> nat \<Rightarrow> nat \<Rightarrow> nat \<Rightarrow> (nat option \<times> alloc_state) exec" where
  "realloc_expand_last s oldp old_ptr sz =
     bind_exec (load s (Some old_ptr)) (\<lambda>mo.
     bind_exec (if prev mo = None then ok False else is_free_at s (prev mo)) (\<lambda>c.
       if c then
         let ret = the (prev mo) in
         bind_exec (absorb_into_prev s old_ptr) (\<lambda>s1.
         bind_exec (load s1 (Some ret)) (\<lambda>mr.
           case sbrk s1 (to_intptr (size_t_sub sz (size_md mr))) of
             (None, s2) \<Rightarrow> ok (None, s2)
           | (Some m, s2) \<Rightarrow>
               bind_exec (store s2 (Some ret) (\<lambda>x. x\<lparr>size_md := sz\<rparr>)) (\<lambda>s3.
               bind_exec (load s3 (Some old_ptr)) (\<lambda>mo3.
               bind_exec (memmove s3 (Some (GET_PTR_FROM_METADATA ret)) oldp (size_md mo3)) (\<lambda>s4.
               ok (Some (GET_PTR_FROM_METADATA ret), s4))))))
       else
         (case sbrk s (to_intptr (size_t_sub sz (size_md mo))) of
            (None, s1) \<Rightarrow> ok (None, s1)
          | (Some m, s1) \<Rightarrow>
              bind_exec (store s1 (Some old_ptr) (\<lambda>x. x\<lparr>size_md := sz\<rparr>)) (\<lambda>s2.
              ok (Some oldp, s2)))))"

definition realloc_move :: "alloc_state \<Rightarrow> nat \<Rightarrow> nat \<Rightarrow> nat \<Rightarrow> (nat option \<times> alloc_state) exec" where
  "realloc_move s oldp old_ptr sz =
     bind_exec (smalloc s sz) (\<lambda>(ret, s1).
     bind_exec (load s1 (Some old_ptr)) (\<lambda>mo.
     bind_exec (memmove s1 ret oldp (MMIN sz (size_md mo))) (\<lambda>s2.
     bind_exec (sfree s2 (Some oldp)) (\<lambda>s3.
     ok (ret, s3)))))"

definition free_with_room :: "alloc_state \<Rightarrow> nat option \<Rightarrow> nat \<Rightarrow> nat \<Rightarrow> bool exec" where
  "free_with_room s p have_sz sz =
     (if p = None then ok False
      else bind_exec (load s p) (\<lambda>m. ok (is_free m \<and> size_md m + have_sz \<ge> sz)))"

definition srealloc :: "alloc_state \<Rightarrow> nat option \<Rightarrow> nat \<Rightarrow> (nat option \<times> alloc_state) exec" where
  "srealloc s oldp0 size0 =
     (if size0 > MAX_MALLOC_4_SIZE \<or> size0 = 0 then ok (None, s)
      else
        let sz = GET_SIZE_WITH_ALIGNMENT size0 in
        case oldp0 of
          None \<Rightarrow> smalloc s sz
        | Some oldp \<Rightarrow>
            let old_ptr = GET_METADATA_FROM_PTR oldp in
            bind_exec (load s (Some old_ptr)) (\<lambda>mo.
              if size_md mo \<ge> MIN_KB_BLOCK then
                bind_exec (smalloc s sz) (\<lambda>(ret, s1).
                  if ret = None then ok (None, s1)
                  else
                    bind_exec (load s1 (Some old_ptr)) (\<lambda>mo1.
                    bind_exec (memmove s1 ret oldp (MMIN (size_md mo1) sz)) (\<lambda>s2.
                    bind_exec (sfree s2 (Some oldp)) (\<lambda>s3.
                    ok (ret, s3)))))
              else if size_md mo \<ge> sz then
                bind_exec (cut_and_merge s old_ptr sz True) (\<lambda>s1. ok (Some oldp, s1))
              else
                bind_exec (free_with_room s (prev mo) (size_md mo) sz) (\<lambda>c_prev.
                if c_prev then realloc_merge_prev s oldp old_ptr sz
                else
                  bind_exec (free_with_room s (next_md mo) (size_md mo) sz) (\<lambda>c_next.
                  if c_next then realloc_merge_next s oldp old_ptr sz
                  else
                    bind_exec
                      (if prev mo = None then ok False
                       else bind_exec (is_free_at s (prev mo)) (\<lambda>pf.
                         if \<not> pf then ok False
                         else bind_exec (load s (prev mo)) (\<lambda>mp.
                           free_with_room s (next_md mo) (size_md mp + size_md mo) sz))) (\<lambda>c_both.
                    if c_both then realloc_merge_both s oldp old_ptr sz
                    else if next_md mo = None then realloc_expand_last s oldp old_ptr sz
                    else realloc_move s oldp old_ptr sz)))))"

subsection \<open>The counters\<close>

partial_function (option) count_loop :: "alloc_state \<Rightarrow> nat option \<Rightarrow> 64 word \<Rightarrow> 64 word exec" where
  "count_loop s block result = (case block of
       None \<Rightarrow> ok result
     | Some b \<Rightarrow> (case heap s b of
           None \<Rightarrow> crash InvalidPointer
         | Some m \<Rightarrow> count_loop s (next_md m) (result + 1)))"

partial_function (option) meta_loop :: "alloc_state \<Rightarrow> nat option \<Rightarrow> 64 word \<Rightarrow> 64 word exec" where
  "meta_loop s block result = (case block of
       None \<Rightarrow> ok result
     | Some b \<Rightarrow> (case heap s b of
           None \<Rightarrow> crash InvalidPointer
         | Some m \<Rightarrow> meta_loop s (next_md m) (result + of_nat sizeof_malloc_metadata_t)))"

definition num_allocated_blocks :: "alloc_state \<Rightarrow> 64 word exec" where
  "num_allocated_blocks s =
     bind_exec (count_loop s (metadata_head s) 0) (\<lambda>result.
     count_loop s (mmap_metadata_head s) result)"

definition num_meta_data_bytes :: "alloc_state \<Rightarrow> 64 word exec" where
  "num_meta_data_bytes s =
     bind_exec (meta_loop s (metadata_head s) 0) (\<lambda>result.
     meta_loop s (mmap_metadata_head s) result)"

definition size_meta_data :: "alloc_state \<Rightarrow> 64 word" where
  "size_meta_data s = of_nat sizeof_malloc_metadata_t"

subsection \<open>Client programs\<close>

text \<open>
  The state before the first call, and programs that call the four public functions. A
  pointer argument names an earlier call by its position: the pointer that call returned.
  \<open>Poke k off v\<close> is the client writing the byte \<open>v\<close> at offset \<open>off\<close> of the payload that
  call \<open>k\<close> returned.
\<close>

definition init_state :: "nat \<Rightarrow> nat \<Rightarrow> nat \<Rightarrow> nat \<Rightarrow> alloc_state" where
  "init_state brk0 limit map0 map_bytes =
     \<lparr>heap = Map.empty, mem = (\<lambda>_. 0), metadata_head = None, mmap_metadata_head = None,
      free_block_bin = (\<lambda>_. None), brk = brk0, brk_limit = limit,
      mmap_next = map0, mmap_left = map_bytes\<rparr>"

datatype call = Smalloc nat | Scalloc nat nat | Sfree nat | Srealloc nat nat | Poke nat nat "8 word"

definition run_call :: "call \<Rightarrow> nat option list \<times> alloc_state \<Rightarrow> (nat option list \<times> alloc_state) exec" where
  "run_call c st = (case st of (ps, s) \<Rightarrow> (case c of
       Smalloc n \<Rightarrow> bind_exec (smalloc s n) (\<lambda>(p, s1). ok (ps @ [p], s1))
     | Scalloc k n \<Rightarrow> bind_exec (scalloc s k n) (\<lambda>(p, s1). ok (ps @ [p], s1))
     | Sfree k \<Rightarrow>
         if k < length ps then bind_exec (sfree s (ps ! k)) (\<lambda>s1. ok (ps @ [None], s1))
         else crash InvalidPointer
     | Srealloc k n \<Rightarrow>
         if k < length ps then bind_exec (srealloc s (ps ! k) n) (\<lambda>(p, s1). ok (ps @ [p], s1))
         else crash InvalidPointer
     | Poke k off v \<Rightarrow>
         if k < length ps then
           (case ps ! k of
              None \<Rightarrow> crash InvalidPointer
            | Some p \<Rightarrow> ok (ps @ [None], s\<lparr>mem := (mem s)(p + off := v)\<rparr>))
         else crash InvalidPointer))"

fun run :: "call list \<Rightarrow> nat option list \<times> alloc_state \<Rightarrow> (nat option list \<times> alloc_state) exec" where
  "run [] st = ok st"
| "run (c # cs) st = bind_exec (run_call c st) (run cs)"

subsection \<open>Well-formed buckets\<close>

text \<open>
  \<open>bin_seg h pv p xs q\<close>: from the pointer \<open>p\<close> the fields \<^verbatim>\<open>bin_next\<close> lead through the blocks
  \<open>xs\<close> to \<open>q\<close>, and every \<^verbatim>\<open>bin_prev\<close> on the way points to the block before (\<open>pv\<close> for the
  first). A bucket is well formed when its head starts such a list that ends in null and
  repeats no block.
\<close>

fun bin_seg :: "(nat \<Rightarrow> malloc_metadata_t option) \<Rightarrow> nat option \<Rightarrow> nat option \<Rightarrow> nat list \<Rightarrow> nat option \<Rightarrow> bool" where
  "bin_seg h pv p [] q = (p = q)"
| "bin_seg h pv p (x # xs) q =
     (p = Some x \<and> (case h x of None \<Rightarrow> False
        | Some m \<Rightarrow> bin_prev m = pv \<and> bin_seg h (Some x) (bin_next m) xs q))"

definition last_or :: "nat option \<Rightarrow> nat list \<Rightarrow> nat option" where
  "last_or pv xs = (if xs = [] then pv else Some (last xs))"


text \<open>
  \<open>addr_list h p xs\<close>: from \<open>p\<close> the fields \<^verbatim>\<open>next\<close> lead through the blocks \<open>xs\<close> to null.
\<close>

fun addr_list :: "(nat \<Rightarrow> malloc_metadata_t option) \<Rightarrow> nat option \<Rightarrow> nat list \<Rightarrow> bool" where
  "addr_list h p [] = (p = None)"
| "addr_list h p (x # xs) =
     (p = Some x \<and> (case h x of None \<Rightarrow> False | Some m \<Rightarrow> addr_list h (next_md m) xs))"


text \<open>
  The state after \<^verbatim>\<open>a = smalloc(400); b = smalloc(8); sfree(a)\<close>: a free block of 400 bytes
  in bucket 0, followed by a block in use.
\<close>

definition split_example :: alloc_state where
  "split_example =
     \<lparr>heap = [4096 \<mapsto> \<lparr>size_md = 400, is_free = True, next_md = Some 4544, prev = None,
                       bin_next = None, bin_prev = None\<rparr>,
              4544 \<mapsto> \<lparr>size_md = 8, is_free = False, next_md = None, prev = Some 4096,
                       bin_next = None, bin_prev = None\<rparr>],
      mem = (\<lambda>_. 0), metadata_head = Some 4096, mmap_metadata_head = None,
      free_block_bin = (\<lambda>_. None)(0 := Some 4096), brk = 4600, brk_limit = 100000,
      mmap_next = 1048576, mmap_left = 1000000\<rparr>"

section \<open>Evaluation\<close>

text \<open>The definitions, as rewrite rules that run the model on a given program.\<close>

lemmas consts_defs = ADDRESS_SIZE_def sizeof_malloc_metadata_t_def GET_SIZE_WITH_ALIGNMENT_def MAX_MALLOC_4_SIZE_def
  BIN_SIZE_def KB_def MIN_KB_BLOCK_def MMIN_def GET_BIN_ENTRY_def IS_LARGE_ENOUGH_def GET_PTR_FROM_METADATA_def
  GET_METADATA_FROM_PTR_def size_t_sub_def to_intptr_def to_int_def int_to_size_t_def PAGE_SIZE_def


lemmas op_defs = get_last_loop.simps get_last_metadata_block_def remove_from_list_def insert_to_metadata_list_def
  remove_from_bin_def insert_before_def insert_last_def insert_loop.simps insert_block_to_bin_def cut_block_def
  take_block_def bucket_loop.simps bins_loop.simps get_free_metadata_block_def is_free_at_def expand_last_def
  smalloc_def scalloc_def merge_with_next_def merge_with_prev_def sfree_def merge_after_cut_def cut_and_merge_def
  absorb_into_prev_def realloc_merge_prev_def realloc_merge_next_def realloc_merge_both_def realloc_expand_last_def
  realloc_move_def free_with_room_def srealloc_def init_state_def run_call_def

text \<open>
  For running a program, \<open>bind_exec\<close> is unfolded only once its first argument is a result.
\<close>

lemma bind_exec_weak_cong: "x = x' \<Longrightarrow> bind_exec x f = bind_exec x' f"
  by simp

lemma bind_exec_simps:
  "bind_exec (ok v) f = f v" "bind_exec (crash e) f = crash e" "bind_exec None f = None"
  by (simp_all add: bind_exec_def)

lemmas run_defs = bind_exec_simps load_def store_def get_bin_def set_bin_def get_head_def set_head_def
  sbrk_def mmap_def munmap_def memset_def memmove_def INIT_METADATA_def

section \<open>The counters\<close>

lemma count_then_meta:
  assumes "count_loop s p r = Some y"
  shows "meta_loop s p (r * of_nat sizeof_malloc_metadata_t)
     = bind_exec (Some y) (\<lambda>k. ok (k * of_nat sizeof_malloc_metadata_t))"
proof (rule count_loop.raw_induct[where P = "\<lambda>s p r y. meta_loop s p (r * of_nat sizeof_malloc_metadata_t)
     = bind_exec (Some y) (\<lambda>k. ok (k * of_nat sizeof_malloc_metadata_t))", OF _ assms])
  fix f :: "alloc_state \<Rightarrow> nat option \<Rightarrow> 64 word \<Rightarrow> 64 word exec" and s block result y
  assume IH: "\<And>s block result y. f s block result = Some y \<Longrightarrow>
     meta_loop s block (result * of_nat sizeof_malloc_metadata_t)
       = bind_exec (Some y) (\<lambda>k. ok (k * of_nat sizeof_malloc_metadata_t))"
  assume body: "(case block of None \<Rightarrow> ok result
      | Some b \<Rightarrow> (case heap s b of None \<Rightarrow> crash InvalidPointer
          | Some m \<Rightarrow> f s (next_md m) (result + 1))) = Some y"
  show "meta_loop s block (result * of_nat sizeof_malloc_metadata_t)
       = bind_exec (Some y) (\<lambda>k. ok (k * of_nat sizeof_malloc_metadata_t))"
  proof (cases block)
    case None
    with body show ?thesis by (auto simp: meta_loop.simps bind_exec_def)
  next
    case (Some b)
    show ?thesis
    proof (cases "heap s b")
      case None
      with Some body show ?thesis by (auto simp: meta_loop.simps bind_exec_def)
    next
      case (Some m)
      with \<open>block = Some b\<close> body have "f s (next_md m) (result + 1) = Some y" by simp
      from IH[OF this] Some \<open>block = Some b\<close> show ?thesis
        by (subst meta_loop.simps) (simp add: algebra_simps)
    qed
  qed
qed

lemma meta_then_count:
  assumes "meta_loop s p r' = Some y"
  shows "\<forall>r. r' = r * of_nat sizeof_malloc_metadata_t \<longrightarrow> (\<exists>z. count_loop s p r = Some z)"
proof (rule meta_loop.raw_induct[where P = "\<lambda>s p r' y.
     \<forall>r. r' = r * of_nat sizeof_malloc_metadata_t \<longrightarrow> (\<exists>z. count_loop s p r = Some z)", OF _ assms])
  fix f :: "alloc_state \<Rightarrow> nat option \<Rightarrow> 64 word \<Rightarrow> 64 word exec" and s block result y
  assume IH: "\<And>s block result y. f s block result = Some y \<Longrightarrow>
     \<forall>r. result = r * of_nat sizeof_malloc_metadata_t \<longrightarrow> (\<exists>z. count_loop s block r = Some z)"
  assume body: "(case block of None \<Rightarrow> ok result
      | Some b \<Rightarrow> (case heap s b of None \<Rightarrow> crash InvalidPointer
          | Some m \<Rightarrow> f s (next_md m) (result + of_nat sizeof_malloc_metadata_t))) = Some y"
  show "\<forall>r. result = r * of_nat sizeof_malloc_metadata_t \<longrightarrow> (\<exists>z. count_loop s block r = Some z)"
  proof (intro allI impI)
    fix r assume r: "result = r * of_nat sizeof_malloc_metadata_t"
    show "\<exists>z. count_loop s block r = Some z"
    proof (cases block)
      case None
      then show ?thesis by (simp add: count_loop.simps)
    next
      case (Some b)
      show ?thesis
      proof (cases "heap s b")
        case None
        with Some show ?thesis by (simp add: count_loop.simps)
      next
        case (Some m)
        with \<open>block = Some b\<close> body
        have "f s (next_md m) (result + of_nat sizeof_malloc_metadata_t) = Some y" by simp
        from IH[OF this]
        have "result + of_nat sizeof_malloc_metadata_t = (r + 1) * of_nat sizeof_malloc_metadata_t
          \<longrightarrow> (\<exists>z. count_loop s (next_md m) (r + 1) = Some z)" by blast
        moreover have "result + of_nat sizeof_malloc_metadata_t = (r + 1) * of_nat sizeof_malloc_metadata_t"
          using r by (simp add: algebra_simps)
        ultimately have "\<exists>z. count_loop s (next_md m) (r + 1) = Some z" by blast
        with Some \<open>block = Some b\<close> show ?thesis
          by (subst count_loop.simps) simp
      qed
    qed
  qed
qed

lemma meta_loop_count_loop:
  "meta_loop s p (r * of_nat sizeof_malloc_metadata_t)
     = bind_exec (count_loop s p r) (\<lambda>k. ok (k * of_nat sizeof_malloc_metadata_t))"
proof (cases "count_loop s p r")
  case None
  have "meta_loop s p (r * of_nat sizeof_malloc_metadata_t) = None"
  proof (rule ccontr)
    assume "meta_loop s p (r * of_nat sizeof_malloc_metadata_t) \<noteq> None"
    then obtain y where "meta_loop s p (r * of_nat sizeof_malloc_metadata_t) = Some y" by auto
    from meta_then_count[OF this] None show False by auto
  qed
  with None show ?thesis by (simp add: bind_exec_def)
next
  case (Some y)
  from count_then_meta[OF this] Some show ?thesis by simp
qed

lemma count_loop_list:
  "addr_list (heap s) p xs \<Longrightarrow> count_loop s p r = ok (r + of_nat (length xs))"
proof (induction xs arbitrary: p r)
  case Nil
  then show ?case by (subst count_loop.simps) simp
next
  case (Cons x xs)
  from Cons.prems obtain m where m: "p = Some x" "heap s x = Some m"
    and rest: "addr_list (heap s) (next_md m) xs" by (auto split: option.splits)
  from Cons.IH[OF rest, of "r + 1"] m show ?case
    by (subst count_loop.simps) (simp add: algebra_simps)
qed

text \<open>
  C10. In every state \<^verbatim>\<open>_num_meta_data_bytes()\<close> is \<^verbatim>\<open>_num_allocated_blocks()\<close> times
  \<^verbatim>\<open>_size_meta_data()\<close>, in \<^verbatim>\<open>size_t\<close> arithmetic, and \<^verbatim>\<open>_size_meta_data()\<close> is the same
  constant in every state. The two counters walk the same two chains, so they return
  together, stop in the same fault together, or run forever together; when both chains
  are lists that end in null, they return, with the number of blocks and 48 times that
  number.
\<close>

theorem meta_data_bytes_eq_blocks_times_size:
  "num_meta_data_bytes s = bind_exec (num_allocated_blocks s) (\<lambda>k. ok (k * size_meta_data s))
   \<and> size_meta_data s = 48
   \<and> (addr_list (heap s) (metadata_head s) xs \<and> addr_list (heap s) (mmap_metadata_head s) ys \<longrightarrow>
        num_allocated_blocks s = ok (of_nat (length xs + length ys))
        \<and> num_meta_data_bytes s = ok (of_nat (length xs + length ys) * 48))"
proof -
  have a: "meta_loop s (metadata_head s) 0
     = bind_exec (count_loop s (metadata_head s) 0) (\<lambda>k. ok (k * of_nat sizeof_malloc_metadata_t))"
    using meta_loop_count_loop[of s "metadata_head s" 0] by simp
  have b: "num_meta_data_bytes s = bind_exec (num_allocated_blocks s) (\<lambda>k. ok (k * size_meta_data s))"
    unfolding num_meta_data_bytes_def num_allocated_blocks_def size_meta_data_def a
    by (auto simp: bind_exec_def meta_loop_count_loop split: option.splits sum.splits)
  have c: "size_meta_data s = 48"
    by (simp add: size_meta_data_def sizeof_malloc_metadata_t_def)
  have d: "num_allocated_blocks s = ok (of_nat (length xs + length ys))"
    if "addr_list (heap s) (metadata_head s) xs" "addr_list (heap s) (mmap_metadata_head s) ys"
    using that by (simp add: num_allocated_blocks_def count_loop_list bind_exec_def)
  have e: "num_meta_data_bytes s = ok (of_nat (length xs + length ys) * 48)"
    if "addr_list (heap s) (metadata_head s) xs" "addr_list (heap s) (mmap_metadata_head s) ys"
    unfolding b d[OF that] c by (simp add: bind_exec_def)
  from b c d e show ?thesis by blast
qed

theorem meta_data_bytes_eq_blocks_times_size_witness:
  "addr_list (heap split_example) (metadata_head split_example) [4096, 4544]
   \<and> addr_list (heap split_example) (mmap_metadata_head split_example) []
   \<and> num_allocated_blocks split_example = ok 2
   \<and> num_meta_data_bytes split_example = ok 96
   \<and> size_meta_data split_example = 48"
proof -
  have h1: "addr_list (heap split_example) (metadata_head split_example) [4096, 4544]"
    by (simp add: split_example_def)
  have h2: "addr_list (heap split_example) (mmap_metadata_head split_example) []"
    by (simp add: split_example_def)
  from meta_data_bytes_eq_blocks_times_size[of split_example "[4096, 4544]" "[]"] h1 h2
  show ?thesis by (simp add: bind_exec_simps)
qed

section \<open>The size check\<close>



section \<open>Splitting a recycled block\<close>

text \<open>Lists of bucket blocks under updates of the header map.\<close>

lemma bin_seg_frame:
  "a \<notin> set xs \<Longrightarrow> bin_seg (h(a := v)) pv p xs q = bin_seg h pv p xs q"
  by (induction xs arbitrary: pv p) (auto split: option.splits)





lemma bin_seg_set_first_prev:
  "bin_seg h pv (Some a) (a # xs) q \<Longrightarrow> h a = Some ma \<Longrightarrow> a \<notin> set xs \<Longrightarrow>
   bin_seg (h(a \<mapsto> ma\<lparr>bin_prev := pv'\<rparr>)) pv' (Some a) (a # xs) q"
  by (auto simp: bin_seg_frame split: option.splits)












lemma split_example_reachable:
  "run [Smalloc 400, Smalloc 8, Sfree 0] ([], init_state 4096 100000 1048576 1000000)
     = ok ([Some 4144, Some 4592, None], split_example)"
  by (simp add: consts_defs run_defs op_defs split_example_def fun_eq_iff cong: bind_exec_weak_cong)

lemma bucket_loop_fits:
  "heap s b = Some m \<Longrightarrow> size_md m \<ge> sz \<Longrightarrow> bucket_loop s sz (Some b) = take_block s b sz"
  by (subst bucket_loop.simps) simp

lemma get_free_metadata_block_head_fits:
  assumes "GET_BIN_ENTRY sz < BIN_SIZE" and "free_block_bin s (GET_BIN_ENTRY sz) = Some w"
    and "heap s w = Some m" and "size_md m \<ge> sz"
    and "take_block s w sz = ok (Some w, s')"
  shows "get_free_metadata_block s sz = ok (Some w, s')"
  unfolding get_free_metadata_block_def
  using assms by (subst bins_loop.simps) (simp add: bucket_loop_fits)



section \<open>Zeroed allocations\<close>




section \<open>Allocate, free, allocate again\<close>

text \<open>
  C9. \<^verbatim>\<open>p = smalloc(n); sfree(p); q = smalloc(n)\<close> should give \<open>q = p\<close> from every reachable
  state. The search of C2 runs along the address chain: from the state reached by
  \<^verbatim>\<open>a = smalloc(8); b = smalloc(104); sfree(a)\<close> the first \<^verbatim>\<open>smalloc(104)\<close> returns \<open>p = 4200\<close>,
  the payload of \<open>b\<close>, which is in use; \<^verbatim>\<open>sfree(p)\<close> merges that block into the free block of
  \<open>a\<close> before it; and the second \<^verbatim>\<open>smalloc(104)\<close> returns \<open>q = 4144\<close>, the payload of the
  merged block.
\<close>

theorem free_then_allocate_gives_other_block:
  "case run [Smalloc 8, Smalloc 104, Sfree 0, Smalloc 104, Sfree 3, Smalloc 104]
          ([], init_state 4096 100000 1048576 1000000) of
     Some (Inr (ps, s)) \<Rightarrow>
       ps = [Some 4144, Some 4200, None, Some 4200, None, Some 4144]
   | _ \<Rightarrow> False"
  by (simp add: consts_defs run_defs op_defs cong: bind_exec_weak_cong)

text \<open>
  Where the search meets the freed block first, the second \<^verbatim>\<open>smalloc\<close> returns the pointer
  of the first: for a free block of exactly the size (recycled whole, 104 bytes), for the
  free last block that is extended (whole, 504 bytes), and for a larger free block, which
  is split, merged again by \<^verbatim>\<open>sfree\<close> and split anew.
\<close>

lemma free_then_allocate_same_block:
  "(case run [Smalloc 104, Smalloc 8, Sfree 0, Smalloc 104, Sfree 3, Smalloc 104]
          ([], init_state 4096 100000 1048576 1000000) of
     Some (Inr (ps, s)) \<Rightarrow>
       ps ! 3 = Some 4144 \<and> ps ! 5 = Some 4144 \<and>
       map_option (\<lambda>m. (size_md m, is_free m)) (heap s 4096) = Some (104, False)
   | _ \<Rightarrow> False)
   \<and> (case run [Smalloc 200, Sfree 0, Smalloc 500, Sfree 2, Smalloc 500]
          ([], init_state 4096 100000 1048576 1000000) of
     Some (Inr (ps, s)) \<Rightarrow>
       ps ! 2 = Some 4144 \<and> ps ! 4 = Some 4144 \<and>
       map_option (\<lambda>m. (size_md m, is_free m)) (heap s 4096) = Some (504, False)
   | _ \<Rightarrow> False)
   \<and> (case run [Smalloc 1000, Sfree 0, Smalloc 104, Sfree 2, Smalloc 104]
          ([], init_state 4096 100000 1048576 1000000) of
     Some (Inr (ps, s)) \<Rightarrow>
       ps ! 2 = Some 4144 \<and> ps ! 4 = Some 4144 \<and>
       map_option (\<lambda>m. (size_md m, is_free m, next_md m)) (heap s 4096) = Some (104, False, Some 4248) \<and>
       map_option (\<lambda>m. (size_md m, is_free m)) (heap s 4248) = Some (848, True)
   | _ \<Rightarrow> False)"
  by (simp add: consts_defs run_defs op_defs cong: bind_exec_weak_cong)

lemma bins_loop_empty:
  "\<forall>i. k \<le> i \<and> i < BIN_SIZE \<longrightarrow> free_block_bin s i = None \<Longrightarrow> bins_loop s sz k = ok (None, s)"
proof (induction "BIN_SIZE - k" arbitrary: k)
  case 0
  then show ?case by (subst bins_loop.simps) simp
next
  case (Suc d)
  from Suc(2) have k: "k < BIN_SIZE" by simp
  from Suc(2) have "d = BIN_SIZE - (k + 1)" by simp
  moreover from Suc(3) have "\<forall>i. k + 1 \<le> i \<and> i < BIN_SIZE \<longrightarrow> free_block_bin s i = None" by simp
  ultimately have "bins_loop s sz (k + 1) = ok (None, s)" by (rule Suc(1))
  with k Suc(3) show ?case by (subst bins_loop.simps) simp
qed

lemma addr_list_frame:
  "a \<notin> set xs \<Longrightarrow> addr_list (h(a := v)) p xs = addr_list h p xs"
  by (induction xs arbitrary: p) (auto split: option.splits)

lemma get_last_loop_list:
  "addr_list (heap s) (Some x) (x # xs) \<Longrightarrow> get_last_loop s l (Some x) = ok (Some (last (x # xs)))"
proof (induction xs arbitrary: x)
  case Nil
  then show ?case by (subst get_last_loop.simps) (auto split: option.splits)
next
  case (Cons y ys)
  from Cons.prems obtain m where m: "heap s x = Some m" "next_md m = Some y"
    and rest: "addr_list (heap s) (Some y) (y # ys)" by (auto split: option.splits)
  from Cons.IH[OF rest] m show ?case by (subst get_last_loop.simps) simp
qed

lemma get_last_metadata_block_list:
  assumes "addr_list (heap s) p xs"
  shows "get_last_metadata_block s p = ok (last_or None xs)"
proof (cases xs)
  case Nil
  with assms show ?thesis by (simp add: get_last_metadata_block_def last_or_def)
next
  case (Cons y ys)
  with assms have p: "p = Some y" by simp
  from assms Cons p have "get_last_loop s p (Some y) = ok (Some (last (y # ys)))"
    by (intro get_last_loop_list) simp
  with Cons p show ?thesis by (simp add: get_last_metadata_block_def last_or_def)
qed


lemma to_intptr_small: "n < 2 ^ 63 \<Longrightarrow> to_intptr n = int n"
  by (simp add: to_intptr_def)

text \<open>
  The same for a block that the first \<^verbatim>\<open>smalloc\<close> takes from the break, in any state: let the
  aligned size be below 128 KB, every bucket from the bucket of that size upward be empty,
  the address chain be a list whose last block (if there is one) is in use, and the break
  be able to grow by the size and a header. Then \<^verbatim>\<open>p = smalloc(n)\<close> is a new block at the
  break, \<^verbatim>\<open>sfree(p)\<close> leaves it free with its size, and \<^verbatim>\<open>q = smalloc(n)\<close> returns \<open>p\<close> again,
  the block whole and in use.
\<close>

lemma free_then_allocate_recycles_new_block:
  assumes n: "0 < n" "n \<le> MAX_MALLOC_4_SIZE"
    and small: "GET_SIZE_WITH_ALIGNMENT n < MIN_KB_BLOCK"
    and empty: "\<forall>i. GET_BIN_ENTRY (GET_SIZE_WITH_ALIGNMENT n) \<le> i \<and> i < BIN_SIZE \<longrightarrow> free_block_bin s i = None"
    and chain: "addr_list (heap s) (metadata_head s) xs"
    and used: "\<forall>l m. last_or None xs = Some l \<and> heap s l = Some m \<longrightarrow> \<not> is_free m"
    and room: "brk s + GET_SIZE_WITH_ALIGNMENT n + sizeof_malloc_metadata_t \<le> brk_limit s"
    and fresh: "brk s \<notin> set xs"
  shows "\<exists>s1 s2 s3. smalloc s n = ok (Some (brk s + sizeof_malloc_metadata_t), s1)
           \<and> sfree s1 (Some (brk s + sizeof_malloc_metadata_t)) = ok s2
           \<and> smalloc s2 n = ok (Some (brk s + sizeof_malloc_metadata_t), s3)
           \<and> map_option (\<lambda>m. (size_md m, is_free m)) (heap s2 (brk s))
                = Some (GET_SIZE_WITH_ALIGNMENT n, True)
           \<and> map_option (\<lambda>m. (size_md m, is_free m)) (heap s3 (brk s))
                = Some (GET_SIZE_WITH_ALIGNMENT n, False)"
proof -
  define sz where "sz = GET_SIZE_WITH_ALIGNMENT n"
  define b where "b = brk s"
  define k where "k = GET_BIN_ENTRY sz"
  from small have szs: "sz < 131072" by (simp add: sz_def MIN_KB_BLOCK_def KB_def)
  then have kb: "k < BIN_SIZE"
    by (simp add: k_def GET_BIN_ENTRY_def KB_def BIN_SIZE_def div_less_iff_less_mult)
  have nle: "\<not> IS_LARGE_ENOUGH sz sz" by (simp add: IS_LARGE_ENOUGH_def)
  have ip: "to_intptr (sz + sizeof_malloc_metadata_t) = int sz + 48"
    using szs by (subst to_intptr_small) (auto simp: sizeof_malloc_metadata_t_def)
  have scan: "get_free_metadata_block s sz = ok (None, s)"
    unfolding get_free_metadata_block_def using empty
    by (intro bins_loop_empty) (simp add: sz_def)
  have lastb: "get_last_metadata_block s (metadata_head s) = ok (last_or None xs)"
    using chain by (rule get_last_metadata_block_list)
  define rec0 where "rec0 = \<lparr>size_md = sz, is_free = False, next_md = None, prev = None,
                            bin_next = None, bin_prev = None\<rparr>"
  define s0 where "s0 = (s\<lparr>brk := b + sz + 48\<rparr>)\<lparr>heap := (heap s)(b \<mapsto> rec0)\<rparr>"
  have sb: "sbrk s (int sz + 48) = (Some b, s\<lparr>brk := b + sz + 48\<rparr>)"
    using room by (simp add: sbrk_def b_def sz_def sizeof_malloc_metadata_t_def nat_add_distrib)
  have chain0: "addr_list (heap s0) (metadata_head s0) xs"
    using chain fresh by (simp add: s0_def addr_list_frame b_def)
  have last0: "get_last_metadata_block s0 (metadata_head s0) = ok (last_or None xs)"
    using chain0 by (rule get_last_metadata_block_list)
  define lo where "lo = last_or None xs"
  define rec1 where "rec1 = rec0\<lparr>prev := lo\<rparr>"
  have s1: "\<exists>s1. insert_to_metadata_list s0 b Metadata_head = ok s1
              \<and> heap s1 b = Some rec1 \<and> free_block_bin s1 = free_block_bin s
              \<and> (\<forall>l. lo = Some l \<longrightarrow> (\<exists>ml. heap s1 l = Some ml \<and> \<not> is_free ml) \<and> l \<noteq> b)"
  proof (cases xs rule: rev_cases)
    case Nil
    with chain have "metadata_head s = None" by simp
    then show ?thesis
      using Nil
      by (simp add: insert_to_metadata_list_def get_head_def set_head_def bind_exec_def store_def
          s0_def lo_def last_or_def rec1_def rec0_def)
  next
    case (snoc ys l)
    with chain obtain h0 where hd: "metadata_head s = Some h0" by (cases ys) auto
    from snoc have lo': "last_or None xs = Some l" by (simp add: last_or_def)
    from snoc fresh have lb: "l \<noteq> b" by (auto simp: b_def)
    have "\<And>p. addr_list (heap s) p (ys @ [l]) \<Longrightarrow> heap s l \<noteq> None"
      by (induction ys) (auto split: option.splits)
    with chain snoc obtain ml where ml: "heap s l = Some ml" by blast
    with used lo' have nf: "\<not> is_free ml" by blast
    show ?thesis
      using hd last0 lo' ml nf lb
      by (simp add: insert_to_metadata_list_def get_head_def bind_exec_def store_def
          s0_def lo_def rec1_def rec0_def)
  qed
  then obtain s1 where ins: "insert_to_metadata_list s0 b Metadata_head = ok s1"
    and h1b: "heap s1 b = Some rec1" and bins1: "free_block_bin s1 = free_block_bin s"
    and prev1: "\<forall>l. lo = Some l \<longrightarrow> (\<exists>ml. heap s1 l = Some ml \<and> \<not> is_free ml) \<and> l \<noteq> b"
    by blast
  have c_false: "(if last_or None xs = None then ok False else is_free_at s (last_or None xs)) = ok False"
  proof (cases "last_or None xs")
    case None
    then show ?thesis by simp
  next
    case (Some l)
    then have "xs \<noteq> []" by (auto simp: last_or_def)
    then obtain ys where xs: "xs = ys @ [l]" using Some
      by (cases xs rule: rev_cases) (auto simp: last_or_def)
    have "\<And>p. addr_list (heap s) p (ys @ [l]) \<Longrightarrow> heap s l \<noteq> None"
      by (induction ys) (auto split: option.splits)
    with chain xs obtain ml where ml: "heap s l = Some ml" by blast
    with used Some have "\<not> is_free ml" by blast
    with Some ml show ?thesis by (simp add: is_free_at_def bind_exec_def load_def)
  qed
  have m1: "smalloc s n = ok (Some (b + sizeof_malloc_metadata_t), s1)"
    using n small scan lastb c_false ip sb ins szs
    by (simp add: smalloc_def Let_def sz_def[symmetric] bind_exec_def MIN_KB_BLOCK_def KB_def
        s0_def rec0_def INIT_METADATA_def GET_PTR_FROM_METADATA_def)
  define s2 where "s2 = s1\<lparr>heap := (heap s1)(b \<mapsto> rec1\<lparr>is_free := True\<rparr>),
                          free_block_bin := (free_block_bin s1)(k := Some b)\<rparr>"
  have bk: "free_block_bin s1 k = None"
    using empty kb bins1 by (simp add: k_def sz_def)
  have mp: "merge_with_prev (s1\<lparr>heap := (heap s1)(b \<mapsto> rec1), free_block_bin := (free_block_bin s1)(k := Some b)\<rparr>) b
      = ok (s1\<lparr>heap := (heap s1)(b \<mapsto> rec1), free_block_bin := (free_block_bin s1)(k := Some b)\<rparr>)"
  proof (cases lo)
    case None
    then show ?thesis
      by (simp add: merge_with_prev_def bind_exec_def load_def rec1_def rec0_def)
  next
    case (Some l)
    with prev1 obtain ml where "heap s1 l = Some ml" "\<not> is_free ml" "l \<noteq> b" by blast
    with Some show ?thesis
      by (simp add: merge_with_prev_def bind_exec_def load_def is_free_at_def rec1_def rec0_def)
  qed
  have f: "sfree s1 (Some (b + sizeof_malloc_metadata_t)) = ok s2"
    using h1b szs bk kb mp
    by (simp add: sfree_def Let_def GET_METADATA_FROM_PTR_def bind_exec_def load_def store_def
        MIN_KB_BLOCK_def KB_def insert_block_to_bin_def get_bin_def set_bin_def k_def[symmetric]
        merge_with_next_def rec1_def rec0_def s2_def)
  define s3 where "s3 = s2\<lparr>free_block_bin := (free_block_bin s2)(k := None),
                          heap := (heap s2)(b \<mapsto> rec1)\<rparr>"
  have tb: "take_block s2 b sz = ok (Some b, s3)"
    using nle kb
    by (simp add: take_block_def bind_exec_def load_def store_def remove_from_bin_def set_bin_def
        s2_def s3_def rec1_def rec0_def k_def[symmetric])
  have "bucket_loop s2 sz (Some b) = ok (Some b, s3)"
    using tb by (subst bucket_loop.simps) (simp add: s2_def rec1_def rec0_def)
  then have "get_free_metadata_block s2 sz = ok (Some b, s3)"
    unfolding get_free_metadata_block_def k_def[symmetric]
    using kb by (subst bins_loop.simps) (simp add: s2_def)
  then have m2: "smalloc s2 n = ok (Some (b + sizeof_malloc_metadata_t), s3)"
    using n small szs
    by (simp add: smalloc_def Let_def sz_def[symmetric] bind_exec_def MIN_KB_BLOCK_def KB_def
        GET_PTR_FROM_METADATA_def)
  have a2: "map_option (\<lambda>m. (size_md m, is_free m)) (heap s2 b) = Some (sz, True)"
    by (simp add: s2_def rec1_def rec0_def)
  have a3: "map_option (\<lambda>m. (size_md m, is_free m)) (heap s3 b) = Some (sz, False)"
    by (simp add: s3_def rec1_def rec0_def)
  from m1 f m2 a2 a3 show ?thesis
    unfolding b_def sz_def by blast
qed

lemma free_then_allocate_recycles_new_block_example:
  "0 < (2000::nat) \<and> 2000 \<le> MAX_MALLOC_4_SIZE \<and> GET_SIZE_WITH_ALIGNMENT 2000 < MIN_KB_BLOCK
   \<and> addr_list (heap split_example) (metadata_head split_example) [4096, 4544]
   \<and> brk split_example = 4600
   \<and> (\<exists>s1 s2 s3. smalloc split_example 2000 = ok (Some 4648, s1)
         \<and> sfree s1 (Some 4648) = ok s2
         \<and> smalloc s2 2000 = ok (Some 4648, s3)
         \<and> map_option (\<lambda>m. (size_md m, is_free m)) (heap s3 4600) = Some (2000, False))"
  using free_then_allocate_recycles_new_block[of 2000 split_example "[4096, 4544]"]
  by (simp add: split_example_def consts_defs last_or_def) blast

section \<open>Programs on which the allocator goes wrong\<close>

text \<open>
  C2. The search for a recycled block should walk a bucket's own list and return only free
  blocks of that bucket. \<^verbatim>\<open>METADATA_FOR_EACH\<close> steps along \<^verbatim>\<open>next\<close>, the address chain, so
  from the head of a bucket the search runs over the blocks that follow it in memory.
  After \<^verbatim>\<open>a = smalloc(16); b = smalloc(24); sfree(a)\<close> bucket 0 holds the block of \<open>a\<close>
  alone, the block of \<open>b\<close> (header 4160, payload 4208) is in use, and \<^verbatim>\<open>smalloc(24)\<close> returns
  the payload of \<open>b\<close> again.
\<close>

theorem bucket_scan_returns_used_block:
  "case run [Smalloc 16, Smalloc 24, Sfree 0] ([], init_state 4096 100000 1048576 1000000) of
     Some (Inr (ps, s)) \<Rightarrow>
       ps = [Some 4144, Some 4208, None] \<and>
       free_block_bin s 0 = Some 4096 \<and>
       map_option bin_next (heap s 4096) = Some None \<and>
       map_option next_md (heap s 4096) = Some (Some 4160) \<and>
       map_option is_free (heap s 4160) = Some False \<and>
       (case smalloc s 24 of Some (Inr (p, s')) \<Rightarrow> p = Some 4208 | _ \<Rightarrow> False)
   | _ \<Rightarrow> False"
  by (simp add: consts_defs run_defs op_defs cong: bind_exec_weak_cong)

text \<open>
  C1. A free block of the program break should be linked in its bucket, also after another
  block was removed from the middle of that bucket. \<^verbatim>\<open>remove_from_bin\<close> sets the
  \<^verbatim>\<open>bin_next\<close> of the block before the removed one to null and so cuts off every block
  behind it. Three free blocks of 16, 24 and 32 bytes (headers 4096, 4216, 4344) are
  linked in bucket 0 in this order; \<^verbatim>\<open>smalloc(24)\<close> takes the middle one, and afterwards the
  block at 4344 is still free but bucket 0 ends at 4096 and every other bucket is empty.
\<close>

theorem remove_from_bin_drops_bucket_tail:
  "case run [Smalloc 16, Smalloc 8, Smalloc 24, Smalloc 8, Smalloc 32, Smalloc 8, Sfree 0, Sfree 2, Sfree 4]
          ([], init_state 4096 100000 1048576 1000000) of
     Some (Inr (ps, s)) \<Rightarrow>
       free_block_bin s 0 = Some 4096 \<and>
       map_option bin_next (heap s 4096) = Some (Some 4216) \<and>
       map_option bin_next (heap s 4216) = Some (Some 4344) \<and>
       map_option bin_next (heap s 4344) = Some None \<and>
       (case smalloc s 24 of
          Some (Inr (p, s')) \<Rightarrow>
            p = Some 4264 \<and>
            map_option (\<lambda>m. (size_md m, is_free m)) (heap s' 4344) = Some (32, True) \<and>
            free_block_bin s' = (\<lambda>i. if i = 0 then Some 4096 else None) \<and>
            map_option bin_next (heap s' 4096) = Some None
        | _ \<Rightarrow> False)
   | _ \<Rightarrow> False"
  by (simp add: consts_defs run_defs op_defs fun_eq_iff cong: bind_exec_weak_cong)

text \<open>
  C5. No two blocks that are neighbours in memory should both be free after a public call.
  The search of C2 may pick a block in use and split it; the free remainder then stands
  before a block that is free already. After the program below the block at 4224
  (328 bytes) and its successor at 4600 are both free.
\<close>

theorem smalloc_leaves_adjacent_free_blocks:
  "case run [Smalloc 8, Smalloc 400, Smalloc 16, Sfree 0, Sfree 2, Smalloc 24]
          ([], init_state 4096 100000 1048576 1000000) of
     Some (Inr (ps, s)) \<Rightarrow>
       map_option (\<lambda>m. (size_md m, is_free m, next_md m)) (heap s 4224) = Some (328, True, Some 4600) \<and>
       map_option (\<lambda>m. (is_free m, prev m)) (heap s 4600) = Some (True, Some 4224)
   | _ \<Rightarrow> False"
  by (simp add: consts_defs run_defs op_defs cong: bind_exec_weak_cong)

text \<open>
  C4. Every access to \<^verbatim>\<open>free_block_bin\<close> should stay inside its 128 entries. The index is
  \<^verbatim>\<open>size / KB\<close> with no clamp; two freed neighbours of 100000 bytes merge into a block of
  200048 bytes, whose index is 195.
\<close>

theorem merged_block_indexes_out_of_bounds:
  "run [Smalloc 100000, Smalloc 100000, Sfree 0, Sfree 1]
          ([], init_state 4096 1000000 1048576 1000000) = crash OutOfBounds
   \<and> GET_BIN_ENTRY (100000 + (100000 + sizeof_malloc_metadata_t)) = 195"
  by (simp add: consts_defs run_defs op_defs cong: bind_exec_weak_cong)

text \<open>
  C3. When \<^verbatim>\<open>sbrk\<close> fails, \<^verbatim>\<open>srealloc\<close> should return null and leave the state as it was. In
  the branch that extends the last block, the free block before it is absorbed before
  \<^verbatim>\<open>sbrk\<close> is called. Below the break may not grow beyond 4296: \<^verbatim>\<open>srealloc(b, 1000)\<close> returns
  null, and the block at 4096, free with 16 bytes and linked in bucket 0 before the
  call, is in use with 80 bytes, has no successor and is in no bucket after it.
\<close>

theorem srealloc_failure_changes_state:
  "case run [Smalloc 16, Smalloc 16, Sfree 0] ([], init_state 4096 4296 1048576 1000000) of
     Some (Inr (ps, s)) \<Rightarrow>
       ps ! 1 = Some 4208 \<and>
       map_option (\<lambda>m. (size_md m, is_free m, next_md m)) (heap s 4096) = Some (16, True, Some 4160) \<and>
       free_block_bin s 0 = Some 4096 \<and>
       (case srealloc s (Some 4208) 1000 of
          Some (Inr (p, s')) \<Rightarrow>
            p = None \<and>
            map_option (\<lambda>m. (size_md m, is_free m, next_md m)) (heap s' 4096) = Some (80, False, None) \<and>
            free_block_bin s' 0 = None
        | _ \<Rightarrow> False)
   | _ \<Rightarrow> False"
  by (simp add: consts_defs run_defs op_defs cong: bind_exec_weak_cong)

text \<open>
  The last branch of \<^verbatim>\<open>srealloc\<close> passes the result of \<^verbatim>\<open>smalloc\<close> to \<^verbatim>\<open>memmove\<close> without a
  test: when \<^verbatim>\<open>sbrk\<close> fails there, \<^verbatim>\<open>memmove\<close> writes through a null pointer.
\<close>

lemma srealloc_move_through_null:
  "case run [Smalloc 16, Smalloc 16] ([], init_state 4096 4224 1048576 1000000) of
     Some (Inr (ps, s)) \<Rightarrow>
       ps = [Some 4144, Some 4208] \<and> srealloc s (Some 4144) 1000 = crash InvalidPointer
   | _ \<Rightarrow> False"
  by (simp add: consts_defs run_defs op_defs cong: bind_exec_weak_cong)

end
